theory Spec2Isabelle
  imports Main "HOL-Library.Word"
begin

unbundle bit_operations_syntax

section \<open>The Dongle driver (src/lib/Dongle.js) as state-passing functions\<close>

text \<open>
  The class \<^verbatim>\<open>Dongle\<close> is a record of its fields. A method takes the record last and
  returns what the caller gets together with the updated record. Everything a method
  does to the outside (a BLE primitive, a command handed to the messaging master, an
  emitted event, a user callback it calls) is appended to the field \<open>trace\<close>, in
  program order.

  A promise is its final \<open>outcome\<close>: resolved, rejected with a reason, or never
  settled. A chain \<^verbatim>\<open>p.then(f)\<close> runs \<open>f\<close> when \<open>p\<close> resolved and keeps the
  rejection or the pending state of \<open>p\<close> otherwise. What the BLE stack and the
  messaging master answer is not code of this repository: the field \<open>peer\<close> gives,
  for the operation issued when the trace has length \<open>k\<close>, the completion the outside
  world delivers for it. Each method runs to its end before the next one starts.
\<close>

subsection \<open>Values, errors, promises\<close>

type_synonym byte = "8 word"

text \<open>A characteristic handle, identified by its UUID.\<close>
type_synonym characteristic = string

text \<open>A user function, identified by a number.\<close>
type_synonym cbid = nat

datatype jsval = Undefined | Null | Fn cbid | Timer nat

datatype error =
    TypeError                 \<comment> \<open>a property of \<^verbatim>\<open>null\<close> or \<^verbatim>\<open>undefined\<close> was read\<close>
  | NoReason                  \<comment> \<open>\<^verbatim>\<open>reject()\<close>\<close>
  | Error string              \<comment> \<open>\<^verbatim>\<open>new Error(msg)\<close>\<close>
  | Reason string             \<comment> \<open>a promise rejected with a plain string\<close>
  | Exception nat             \<comment> \<open>\<^verbatim>\<open>new Error('Exception ' + code)\<close>\<close>
  | IssuingCommand nat        \<comment> \<open>the string \<^verbatim>\<open>'Error issuing command ' + id\<close>\<close>
  | Transport nat             \<comment> \<open>an error object of the BLE stack or of the master\<close>

datatype outcome = Pending | Resolved | Rejected error

datatype result = Threw error | Returned jsval | Promise outcome

text \<open>The response object the messaging master passes to \<^verbatim>\<open>onComplete\<close>.\<close>
datatype response = Response (exceptionCode: nat) (resp_values: "byte list option")

text \<open>What the outside world does with the completion function of an operation.\<close>
datatype completion = NoCallback | Callback "error option" "response option"

datatype event =
    Unsubscribe characteristic
  | Subscribe characteristic
  | Write characteristic "byte list"
  | Command nat nat "byte list"      \<comment> \<open>unit, op code, payload\<close>
  | PeripheralDisconnect
  | Emit string "byte list option"
  | WatcherCall cbid "byte list" nat \<comment> \<open>\<^verbatim>\<open>watcherCb[slot](data, slot)\<close>\<close>
  | CommandCallback cbid error       \<comment> \<open>\<^verbatim>\<open>command.callback(err)\<close>\<close>

subsection \<open>Constants\<close>

definition SLOT_SUPERWATCH :: nat where "SLOT_SUPERWATCH = 0x10"

definition OP_WATCH :: nat where "OP_WATCH = 2"
definition OP_UNWATCH :: nat where "OP_UNWATCH = 3"
definition OP_SUPERWATCH :: nat where "OP_SUPERWATCH = 5"

definition uuidStatus :: "string list" where
  "uuidStatus =
    [''6765ed1f4de149e14771a14380c90006'',
     ''6765ed1f4de149e14771a14380c90007'',
     ''6765ed1f4de149e14771a14380c90008'',
     ''6765ed1f4de149e14771a14380c90009'',
     ''6765ed1f4de149e14771a14380c9000a'',
     ''6765ed1f4de149e14771a14380c9000b'',
     ''6765ed1f4de149e14771a14380c9000c'',
     ''6765ed1f4de149e14771a14380c9000d'',
     ''6765ed1f4de149e14771a14380c9000e'',
     ''6765ed1f4de149e14771a14380c9000f'',
     ''6765ed1f4de149e14771a14380c90010'',
     ''6765ed1f4de149e14771a14380c90011'',
     ''6765ed1f4de149e14771a14380c90012'',
     ''6765ed1f4de149e14771a14380c90013'',
     ''6765ed1f4de149e14771a14380c90014'',
     ''6765ed1f4de149e14771a14380c90015'',
     ''6765ed1f4de149e14771a14380c90016'',
     ''6765ed1f4de149e14771a14380c90017'',
     ''6765ed1f4de149e14771a14380c90018'',
     ''6765ed1f4de149e14771a14380c90019'']"

definition numStatus :: nat where "numStatus = length uuidStatus"

definition uuidSuperwatch :: string where
  "uuidSuperwatch = ''6765ed1f4de149e14771a14380c9001a''"

definition uuidTx :: string where
  "uuidTx = ''49535343884143f4a8d4ecbe34729bb3''"

definition uuidRx :: string where
  "uuidRx = ''495353431e4d4bd9ba6123c647249616''"

definition uuidUartControl :: string where
  "uuidUartControl = ''495353434c8a39b32f49511cff073b7e''"

definition uuidFault :: string where
  "uuidFault = ''6765ed1f4de149e14771a14380c90005''"

text \<open>The unit the dongle itself answers to (\<^verbatim>\<open>this.id = 254\<close>).\<close>
definition dongle_id :: nat where "dongle_id = 254"

subsection \<open>The object\<close>

text \<open>An entry of \<^verbatim>\<open>commandQueue\<close>; \<open>rq_timeout\<close> is \<^verbatim>\<open>options.timeout\<close>.\<close>
record request =
  rq_command :: "byte list"
  rq_sequence :: nat
  rq_responseTimer :: jsval
  rq_timeout :: nat
  rq_callback :: cbid

text \<open>
  \<open>statusChar\<close> and \<open>watcherCb\<close> are JavaScript arrays read at any index:
  an index never written reads \<^verbatim>\<open>undefined\<close> (\<open>None\<close>, \<open>Undefined\<close>).
  \<open>watcherCb\<close> itself is \<open>None\<close> until \<^verbatim>\<open>inspectDevice\<close> has assigned the
  array. \<open>peripheral\<close> holds \<^verbatim>\<open>peripheral.state\<close>, \<open>None\<close> once the field is
  \<^verbatim>\<open>null\<close>. \<open>subscribed\<close> is the notification state the BLE stack keeps per
  characteristic: a subscribe that completes without error adds the characteristic, an
  unsubscribe that completes without error removes it.
\<close>
record dongle =
  statusChar :: "nat \<Rightarrow> characteristic option"
  superwatchChar :: "characteristic option"
  txCharacteristic :: "characteristic option"
  rxCharacteristic :: "characteristic option"
  commandChar :: "characteristic option"
  watcherCb :: "(nat \<Rightarrow> jsval) option"
  subscribed :: "characteristic set"
  connected :: bool
  peripheral :: "string option"
  deviceType :: "string option"
  controllerService :: "string option"
  commandQueue :: "request list"
  commandSequence :: nat
  defaultTimeout :: nat
  trace :: "event list"
  peer :: "nat \<Rightarrow> completion"

definition issue :: "event \<Rightarrow> dongle \<Rightarrow> dongle" where
  "issue e me = me\<lparr>trace := trace me @ [e]\<rparr>"

text \<open>The completion the outside world delivers for the operation issued next.\<close>
definition next_completion :: "dongle \<Rightarrow> completion" where
  "next_completion me = peer me (length (trace me))"

definition andThen :: "outcome \<times> dongle \<Rightarrow> (dongle \<Rightarrow> outcome \<times> dongle) \<Rightarrow> outcome \<times> dongle" where
  "andThen p f = (case p of (Resolved, me) \<Rightarrow> f me | (out, me) \<Rightarrow> (out, me))"

subsection \<open>Numbers put into a Buffer\<close>

text \<open>
  Slots, units, addresses and lengths are non-negative integers. \<^verbatim>\<open>a >> 8\<close> and
  \<^verbatim>\<open>a & 0xFF\<close> work on the 32-bit two's complement value of \<open>a\<close>;
  \<^verbatim>\<open>Buffer.from(array)\<close> keeps the low 8 bits of every element.
\<close>

definition js_shr8 :: "nat \<Rightarrow> int" where
  "js_shr8 a = sint (signed_drop_bit 8 (word_of_nat a :: 32 word))"

definition js_and255 :: "nat \<Rightarrow> int" where
  "js_and255 a = sint ((word_of_nat a :: 32 word) AND 0xFF)"

definition Buffer_from :: "int list \<Rightarrow> byte list" where
  "Buffer_from xs = map word_of_int xs"

subsection \<open>BLE primitives and the command PDU\<close>

definition isConnected :: "dongle \<Rightarrow> bool" where
  "isConnected me = (peripheral me = Some ''connected'' \<and> connected me)"

text \<open>
  The completion function \<^verbatim>\<open>writeCharacteristic\<close> hands to
  \<^verbatim>\<open>characteristic.write\<close>: it rejects with the error it is given and
  resolves otherwise; never called, it leaves the promise unsettled.
\<close>
definition write_callback :: "completion \<Rightarrow> outcome" where
  "write_callback cpl =
    (case cpl of
       NoCallback \<Rightarrow> Pending
     | Callback (Some err) d \<Rightarrow> Rejected err
     | Callback None d \<Rightarrow> Resolved)"

text \<open>
  \<^verbatim>\<open>writeCharacteristic(characteristic, value)\<close> has two parameters. With a
  \<^verbatim>\<open>null\<close> characteristic, the call \<^verbatim>\<open>characteristic.write\<close> throws inside the
  promise executor, which rejects the promise.
\<close>
definition writeCharacteristic :: "characteristic option \<Rightarrow> byte list \<Rightarrow> dongle \<Rightarrow> outcome \<times> dongle" where
  "writeCharacteristic ch v me =
    (if isConnected me then
       (case ch of
          None \<Rightarrow> (Rejected TypeError, me)
        | Some c \<Rightarrow> (write_callback (next_completion me), issue (Write c v) me))
     else (Rejected NoReason, me))"

definition subscribe :: "characteristic option \<Rightarrow> dongle \<Rightarrow> outcome \<times> dongle" where
  "subscribe ch me =
    (case ch of
       None \<Rightarrow> (Rejected TypeError, me)
     | Some c \<Rightarrow>
         (case next_completion me of
            NoCallback \<Rightarrow> (Pending, issue (Subscribe c) me)
          | Callback (Some err) r \<Rightarrow>
              (Rejected (Error ''Failed to subscribe to characteristic''), issue (Subscribe c) me)
          | Callback None r \<Rightarrow>
              (Resolved, issue (Subscribe c) (me\<lparr>subscribed := insert c (subscribed me)\<rparr>))))"

text \<open>Without a characteristic the promise is neither resolved nor rejected.\<close>
definition unsubscribe :: "characteristic option \<Rightarrow> dongle \<Rightarrow> outcome \<times> dongle" where
  "unsubscribe ch me =
    (case ch of
       None \<Rightarrow> (Pending, me)
     | Some c \<Rightarrow>
         (case next_completion me of
            NoCallback \<Rightarrow> (Pending, issue (Unsubscribe c) me)
          | Callback (Some err) r \<Rightarrow>
              (Rejected (Error ''Failed to unsubscribe characteristic''), issue (Unsubscribe c) me)
          | Callback None r \<Rightarrow>
              (Resolved, issue (Unsubscribe c) (me\<lparr>subscribed := subscribed me - {c}\<rparr>))))"

text \<open>
  \<^verbatim>\<open>onComplete(err, response)\<close> of \<^verbatim>\<open>command\<close>. With no error and no
  response, reading \<^verbatim>\<open>response.values\<close> throws inside the completion function
  and the promise stays unsettled.
\<close>
definition onComplete :: "nat \<Rightarrow> error option \<Rightarrow> response option \<Rightarrow> outcome" where
  "onComplete opc err resp =
    (let err1 = (case resp of
                   Some r \<Rightarrow> if exceptionCode r \<noteq> 0 then Some (Exception (exceptionCode r)) else err
                 | None \<Rightarrow> err)
     in case err1 of
          Some e \<Rightarrow> Rejected e
        | None \<Rightarrow>
            (case resp of
               None \<Rightarrow> Pending
             | Some r \<Rightarrow>
                 (case resp_values r of
                    Some (v # vs) \<Rightarrow> if v = 0 then Resolved else Rejected (IssuingCommand opc)
                  | _ \<Rightarrow> Rejected (IssuingCommand opc))))"

definition command :: "nat \<Rightarrow> nat \<Rightarrow> byte list \<Rightarrow> dongle \<Rightarrow> outcome \<times> dongle" where
  "command dest opc vals me =
    (case next_completion me of
       NoCallback \<Rightarrow> (Pending, issue (Command dest opc vals) me)
     | Callback err resp \<Rightarrow> (onComplete opc err resp, issue (Command dest opc vals) me))"

subsection \<open>Watches\<close>

text \<open>The fourth argument of \<^verbatim>\<open>watch\<close>: a number, or the callback when the length is left out.\<close>
datatype lenarg = LenNum nat | LenFn cbid

definition watch :: "nat \<Rightarrow> nat \<Rightarrow> nat \<Rightarrow> lenarg \<Rightarrow> jsval \<Rightarrow> dongle \<Rightarrow> result \<times> dongle" where
  "watch slot uid address len cb0 me =
    (let cb = (case len of LenFn f \<Rightarrow> Fn f | LenNum n \<Rightarrow> cb0);
         length1 = (case len of LenFn f \<Rightarrow> 1 | LenNum n \<Rightarrow> n)
     in if slot < numStatus then
          (case watcherCb me of
             None \<Rightarrow> (Threw TypeError, me)
           | Some tbl \<Rightarrow>
               (let me1 = me\<lparr>watcherCb := Some (tbl(slot := cb))\<rparr>;
                    (p, me2) =
                      andThen
                        (andThen (unsubscribe (statusChar me1 slot) me1)
                           (command dongle_id OP_WATCH
                              (Buffer_from [int slot, int uid, js_shr8 address, js_and255 address, int length1])))
                        (\<lambda>m. subscribe (statusChar m slot) m)
                in (Promise p, me2)))
        else (Promise (Rejected (Reason ''watch requested for invalid slot number'')), me))"

text \<open>
  The second step of the chain in \<^verbatim>\<open>superwatch\<close> is a block that calls
  \<^verbatim>\<open>me.command\<close> without returning its promise: the step resolves as soon as the
  command has been handed over, whatever becomes of it.
\<close>
definition superwatch :: "nat \<Rightarrow> nat list \<Rightarrow> jsval \<Rightarrow> dongle \<Rightarrow> result \<times> dongle" where
  "superwatch uid addresses cb me =
    (case watcherCb me of
       None \<Rightarrow> (Threw TypeError, me)
     | Some tbl \<Rightarrow>
         (let me1 = me\<lparr>watcherCb := Some (tbl(SLOT_SUPERWATCH := cb))\<rparr>;
              commandArray = [int SLOT_SUPERWATCH, int uid]
                               @ concat (map (\<lambda>address. [js_shr8 address, js_and255 address]) addresses);
              (p, me2) =
                andThen
                  (andThen (unsubscribe (superwatchChar me1) me1)
                     (\<lambda>m. (Resolved, snd (command dongle_id OP_SUPERWATCH (Buffer_from commandArray) m))))
                  (\<lambda>m. subscribe (superwatchChar m) m)
          in (Promise p, me2)))"

definition unwatch :: "nat \<Rightarrow> dongle \<Rightarrow> result \<times> dongle" where
  "unwatch slot me =
    (if slot < numStatus then
       (case watcherCb me of
          None \<Rightarrow> (Threw TypeError, me)
        | Some tbl \<Rightarrow>
            (let me1 = me\<lparr>watcherCb := Some (tbl(slot := Null))\<rparr>;
                 (p, me2) =
                   andThen (unsubscribe (statusChar me1 slot) me1)
                     (command dongle_id OP_UNWATCH (Buffer_from [int slot]))
             in (Promise p, me2)))
     else (Promise (Rejected (Reason ''unwatch requested for invalid slot number'')), me))"

text \<open>
  The handler \<^verbatim>\<open>inspectDevice\<close> registers for the data events of
  \<^verbatim>\<open>statusChar[slot]\<close>: a notification on slot \<open>slot\<close> is a call of
  \<^verbatim>\<open>onStatus(slot, data)\<close>. It calls the entry of the slot when the slot is
  below \<open>numStatus\<close> and the entry is a function; in every other case, a missing
  table included, no callback is called.
\<close>
definition onStatus :: "nat \<Rightarrow> byte list \<Rightarrow> dongle \<Rightarrow> dongle" where
  "onStatus slot data me =
    (case watcherCb me of
       None \<Rightarrow> me
     | Some tbl \<Rightarrow>
         (case tbl slot of
            Fn f \<Rightarrow> if slot < numStatus then issue (WatcherCall f data slot) me else me
          | _ \<Rightarrow> me))"

text \<open>What \<^verbatim>\<open>me.watcherCb[slot]\<close> reads.\<close>
definition slot_callback :: "dongle \<Rightarrow> nat \<Rightarrow> jsval" where
  "slot_callback me slot = (case watcherCb me of None \<Rightarrow> Undefined | Some tbl \<Rightarrow> tbl slot)"

subsection \<open>The transparent UART sink\<close>

text \<open>
  The loop of \<^verbatim>\<open>write\<close>: one \<^verbatim>\<open>writeCharacteristic\<close> per slice
  \<^verbatim>\<open>data.slice(index, index + chunkSize)\<close>, the promises collected in \<open>writes\<close>.
\<close>
function write_loop :: "byte list \<Rightarrow> nat \<Rightarrow> outcome list \<Rightarrow> dongle \<Rightarrow> outcome list \<times> dongle" where
  "write_loop data index writes me =
    (if index < length data then
       (let chunk = take 20 (drop index data);
            (p, me1) = writeCharacteristic (txCharacteristic me) chunk me
        in write_loop data (index + 20) (writes @ [p]) me1)
     else (writes, me))"
  by pat_completeness auto
termination
  by (relation "measure (\<lambda>(data, index, writes, me). length data - index)") auto

declare write_loop.simps [simp del]

text \<open>
  \<^verbatim>\<open>Promise.all\<close>: rejected when a member is rejected, unsettled while a member
  is, resolved otherwise. (Of several rejections the one earliest in the list is kept.)
\<close>
fun first_rejected :: "outcome list \<Rightarrow> error option" where
  "first_rejected [] = None"
| "first_rejected (Rejected e # ps) = Some e"
| "first_rejected (p # ps) = first_rejected ps"

definition Promise_all :: "outcome list \<Rightarrow> outcome" where
  "Promise_all ps =
    (case first_rejected ps of
       Some e \<Rightarrow> Rejected e
     | None \<Rightarrow> if Pending \<in> set ps then Pending else Resolved)"

text \<open>The promises \<^verbatim>\<open>write\<close> collects, one per chunk.\<close>
definition write_promises :: "byte list \<Rightarrow> dongle \<Rightarrow> outcome list" where
  "write_promises data me =
    (case txCharacteristic me of None \<Rightarrow> [] | Some c \<Rightarrow> fst (write_loop data 0 [] me))"

text \<open>
  The promise of \<^verbatim>\<open>p.then(function() {}).catch(function() {})\<close>, both
  handlers with an empty body: a rejection of \<open>p\<close> is taken by the second handler,
  which returns normally, so the chain ends resolved; it is unsettled while \<open>p\<close> is.
\<close>
definition then_catch_empty :: "outcome \<Rightarrow> outcome" where
  "then_catch_empty p = (case p of Rejected e \<Rightarrow> Resolved | out \<Rightarrow> out)"

text \<open>
  The method \<^verbatim>\<open>write(data)\<close>. It has no \<^verbatim>\<open>return\<close>: the caller gets
  \<^verbatim>\<open>undefined\<close>. The chain built on \<^verbatim>\<open>Promise.all(writes)\<close> is \<open>settled\<close>;
  nothing keeps it.
\<close>
definition dongle_write :: "byte list \<Rightarrow> dongle \<Rightarrow> result \<times> dongle" where
  "dongle_write data me =
    (case txCharacteristic me of
       None \<Rightarrow> (Returned Undefined, me)
     | Some c \<Rightarrow>
         (let (writes, me1) = write_loop data 0 [] me;
              settled = then_catch_empty (Promise_all writes)
          in (Returned Undefined, me1)))"

text \<open>
  The chain \<^verbatim>\<open>Promise.all(writes).then(...).catch(...)\<close> of \<^verbatim>\<open>write\<close>, the
  binding \<open>settled\<close> above; \<open>None\<close> when no chain is built.
\<close>
definition write_chain :: "byte list \<Rightarrow> dongle \<Rightarrow> outcome option" where
  "write_chain data me =
    (case txCharacteristic me of
       None \<Rightarrow> None
     | Some c \<Rightarrow> Some (then_catch_empty (Promise_all (fst (write_loop data 0 [] me)))))"

subsection \<open>Disconnecting\<close>

definition disconnect :: "dongle \<Rightarrow> outcome \<times> dongle" where
  "disconnect me =
    (case peripheral me of
       None \<Rightarrow> (Rejected TypeError, me)
     | Some st \<Rightarrow>
         (case next_completion me of
            NoCallback \<Rightarrow> (Pending, issue PeripheralDisconnect me)
          | Callback err r \<Rightarrow>
              (let me1 = (issue PeripheralDisconnect me)
                           \<lparr>rxCharacteristic := None, txCharacteristic := None, deviceType := None,
                            peripheral := None, controllerService := None, connected := False\<rparr>
               in case err of
                    Some e \<Rightarrow> (Rejected e, me1)
                  | None \<Rightarrow> (Resolved, issue (Emit ''disconnected'' None) me1))))"

subsection \<open>The command queue\<close>

text \<open>
  \<^verbatim>\<open>sendNextCommand\<close> passes three arguments to \<^verbatim>\<open>writeCharacteristic\<close>, which
  has two parameters: the function given third is never called, and the promise returned
  is dropped.
\<close>
definition sendNextCommand :: "dongle \<Rightarrow> dongle" where
  "sendNextCommand me =
    (case commandQueue me of
       [] \<Rightarrow> me
     | cmd # rest \<Rightarrow>
         (let me1 = issue (Emit ''sendCommand'' (Some (rq_command cmd))) me
          in snd (writeCharacteristic (commandChar me1) (rq_command cmd) me1)))"

text \<open>\<^verbatim>\<open>command.responseTimer === timer\<close> is equality of the two values.\<close>
definition handleResponseTimeout :: "jsval \<Rightarrow> dongle \<Rightarrow> dongle" where
  "handleResponseTimeout timer me =
    (case commandQueue me of
       [] \<Rightarrow> me
     | cmd # rest \<Rightarrow>
         if rq_responseTimer cmd = timer then
           sendNextCommand
             ((issue (CommandCallback (rq_callback cmd) (Error ''Timeout'')) me)\<lparr>commandQueue := rest\<rparr>)
         else me)"

text \<open>
  The method \<^verbatim>\<open>__command(command, callback, options)\<close>; \<open>opt_timeout\<close> is
  \<^verbatim>\<open>options.timeout\<close>, \<open>None\<close> when there is none.
\<close>
definition dunder_command :: "byte list \<Rightarrow> cbid \<Rightarrow> nat option \<Rightarrow> dongle \<Rightarrow> dongle" where
  "dunder_command cmd cb opt_timeout me =
    (let timeout = (case opt_timeout of
                      None \<Rightarrow> defaultTimeout me
                    | Some t \<Rightarrow> if t = 0 then defaultTimeout me else t);
         me1 = me\<lparr>commandQueue := commandQueue me @
                     [\<lparr>rq_command = cmd, rq_sequence = commandSequence me, rq_responseTimer = Null,
                       rq_timeout = timeout, rq_callback = cb\<rparr>]\<rparr>;
         me2 = me1\<lparr>commandSequence := (commandSequence me1 + 1) mod 256\<rparr>
     in if length (commandQueue me2) = 1 then sendNextCommand me2 else me2)"

text \<open>
  A timer set with \<^verbatim>\<open>setTimeout(f, delay)\<close> calls \<open>f\<close> with no argument: when
  it fires, the parameter \<open>timer\<close> of \<^verbatim>\<open>handleResponseTimeout\<close> is
  \<^verbatim>\<open>undefined\<close>.
\<close>
definition timer_fires :: "dongle \<Rightarrow> dongle" where
  "timer_fires me = handleResponseTimeout Undefined me"

subsection \<open>A connected dongle\<close>

text \<open>
  The object after \<^verbatim>\<open>connect()\<close> on a device that has every characteristic, with
  an outside world that completes every operation without error and answers every
  command with status 0.
\<close>
definition all_ok :: "nat \<Rightarrow> completion" where
  "all_ok k = Callback None (Some (Response 0 (Some [0])))"

definition ready :: dongle where
  "ready =
    \<lparr>statusChar = (\<lambda>i. if i < numStatus then Some (uuidStatus ! i) else None),
     superwatchChar = Some uuidSuperwatch,
     txCharacteristic = Some uuidTx,
     rxCharacteristic = Some uuidRx,
     commandChar = None,
     watcherCb = Some (\<lambda>i. if i < numStatus then Null else Undefined),
     subscribed = {uuidFault, uuidUartControl, uuidRx},
     connected = True,
     peripheral = Some ''connected'',
     deviceType = Some ''CS1816'',
     controllerService = Some ''6765ed1f4de149e14771a14380c90000'',
     commandQueue = [],
     commandSequence = 0,
     defaultTimeout = 10000,
     trace = [],
     peer = all_ok\<rparr>"

text \<open>An outside world that never calls a completion function.\<close>
definition never :: "nat \<Rightarrow> completion" where
  "never k = NoCallback"

text \<open>An outside world that fails the second operation with a transport error.\<close>
definition second_fails :: "nat \<Rightarrow> completion" where
  "second_fails k = (if k = 1 then Callback (Some (Transport 7)) None else Callback None None)"

text \<open>
  An outside world that fails the fourth operation with a transport error and completes
  every other one as \<open>all_ok\<close> does.
\<close>
definition fourth_fails :: "nat \<Rightarrow> completion" where
  "fourth_fails k = (if k = 3 then Callback (Some (Transport 7)) None else all_ok k)"

text \<open>The connected dongle on a device that lacks the characteristic of slot 3.\<close>
definition ready_without_3 :: dongle where
  "ready_without_3 = ready\<lparr>statusChar := (statusChar ready)(3 := None)\<rparr>"

subsection \<open>Reading the trace\<close>

text \<open>The calls of request callbacks in a trace, with the error each was given.\<close>
fun request_callbacks :: "event list \<Rightarrow> (cbid \<times> error) list" where
  "request_callbacks [] = []"
| "request_callbacks (CommandCallback cb e # evs) = (cb, e) # request_callbacks evs"
| "request_callbacks (ev # evs) = request_callbacks evs"

section \<open>What the primitives leave alone\<close>

lemma numStatus_20: "numStatus = 20"
  by (simp add: numStatus_def uuidStatus_def)

lemma unsubscribe_frame:
  "watcherCb (snd (unsubscribe ch me)) = watcherCb me"
  "statusChar (snd (unsubscribe ch me)) = statusChar me"
  "superwatchChar (snd (unsubscribe ch me)) = superwatchChar me"
  "peer (snd (unsubscribe ch me)) = peer me"
  by (simp_all add: unsubscribe_def issue_def split: option.split completion.split)

lemma subscribe_frame:
  "watcherCb (snd (subscribe ch me)) = watcherCb me"
  "statusChar (snd (subscribe ch me)) = statusChar me"
  "superwatchChar (snd (subscribe ch me)) = superwatchChar me"
  "peer (snd (subscribe ch me)) = peer me"
  by (simp_all add: subscribe_def issue_def split: option.split completion.split)

lemma subscribe_trace:
  "trace (snd (subscribe (Some c) me)) = trace me @ [Subscribe c]"
  by (simp add: subscribe_def issue_def split: completion.split option.split)

lemma subscribe_outcome:
  "fst (subscribe ch me) =
     (case ch of
        None \<Rightarrow> Rejected TypeError
      | Some c \<Rightarrow>
          (case next_completion me of
             NoCallback \<Rightarrow> Pending
           | Callback (Some err) r \<Rightarrow> Rejected (Error ''Failed to subscribe to characteristic'')
           | Callback None r \<Rightarrow> Resolved))"
  by (simp add: subscribe_def split: option.split completion.split)

lemma command_frame:
  "watcherCb (snd (command dest opc vals me)) = watcherCb me"
  "statusChar (snd (command dest opc vals me)) = statusChar me"
  "superwatchChar (snd (command dest opc vals me)) = superwatchChar me"
  "peer (snd (command dest opc vals me)) = peer me"
  "subscribed (snd (command dest opc vals me)) = subscribed me"
  "trace (snd (command dest opc vals me)) = trace me @ [Command dest opc vals]"
  by (simp_all add: command_def issue_def split: completion.split)

lemma andThen_cases:
  "andThen p f = (if fst p = Resolved then f (snd p) else p)"
  by (cases p) (auto simp: andThen_def split: outcome.split)

lemma watch_frame:
  assumes "s < numStatus" and "watcherCb me = Some tbl"
  shows "watcherCb (snd (watch s uid a len cb me)) =
           Some (tbl(s := (case len of LenFn f \<Rightarrow> Fn f | LenNum n \<Rightarrow> cb)))"
    and "statusChar (snd (watch s uid a len cb me)) = statusChar me"
    and "peer (snd (watch s uid a len cb me)) = peer me"
  using assms
  by (simp_all add: watch_def Let_def andThen_cases split_beta
        unsubscribe_frame subscribe_frame command_frame)

lemma superwatch_frame:
  assumes "watcherCb me = Some tbl"
  shows "watcherCb (snd (superwatch uid addresses cb me)) = Some (tbl(SLOT_SUPERWATCH := cb))"
  using assms
  by (simp add: superwatch_def Let_def split_beta andThen_cases
        unsubscribe_frame subscribe_frame command_frame)

lemma unsubscribe_ok:
  "next_completion me = Callback None r \<Longrightarrow>
     unsubscribe (Some c) me =
       (Resolved, issue (Unsubscribe c) (me\<lparr>subscribed := subscribed me - {c}\<rparr>))"
  by (simp add: unsubscribe_def)

lemma ready_fields:
  "watcherCb ready = Some (\<lambda>i. if i < numStatus then Null else Undefined)"
  "superwatchChar ready = Some uuidSuperwatch"
  "txCharacteristic ready = Some uuidTx"
  "isConnected ready"
  "trace ready = []"
  "peer ready = all_ok"
  by (simp_all add: ready_def isConnected_def)

lemma upt_3: "[0..<3::nat] = [0, 1, 2]"
  by (simp add: upt_rec)

section \<open>Invalid slots\<close>

text \<open>
  C7. For every slot index at or above the number of notification slots, \<^verbatim>\<open>watch\<close>
  returns a promise rejected with the invalid-slot reason and changes nothing: the trace
  gets no unsubscribe, no WATCH command and no subscribe, and the callback table is the
  one before the call.
\<close>
theorem watch_invalid_slot:
  "numStatus \<le> s \<Longrightarrow>
     watch s uid address len cb me =
       (Promise (Rejected (Reason ''watch requested for invalid slot number'')), me)"
  by (simp add: watch_def)

theorem watch_invalid_slot_witness:
  "numStatus \<le> 20 \<and>
   watch 20 1 0x5F (LenNum 1) (Fn 7) ready =
     (Promise (Rejected (Reason ''watch requested for invalid slot number'')), ready)"
  using watch_invalid_slot [of 20 1 "0x5F" "LenNum 1" "Fn 7" ready]
  by (simp add: numStatus_20)

section \<open>Watching and unwatching a slot\<close>

text \<open>
  C9. For every valid slot \<open>s\<close> and callbacks \<open>cb1\<close>, \<open>cb2\<close>: after
  \<^verbatim>\<open>watch(s, ..., cb1)\<close> and then \<^verbatim>\<open>watch(s, ..., cb2)\<close>, a notification on
  slot \<open>s\<close> calls \<open>cb2\<close> with the payload and the slot, and calls nothing else.
  The callback table exists (the device has been inspected); nothing is assumed of the
  outside world.
\<close>
theorem watch_last_writer_wins:
  assumes "s < numStatus" and "watcherCb me \<noteq> None"
  shows "onStatus s payload
           (snd (watch s u2 a2 (LenNum l2) (Fn cb2) (snd (watch s u1 a1 (LenNum l1) (Fn cb1) me)))) =
         issue (WatcherCall cb2 payload s)
           (snd (watch s u2 a2 (LenNum l2) (Fn cb2) (snd (watch s u1 a1 (LenNum l1) (Fn cb1) me))))"
proof -
  from assms(2) obtain tbl where tbl: "watcherCb me = Some tbl" by auto
  let ?me1 = "snd (watch s u1 a1 (LenNum l1) (Fn cb1) me)"
  have one: "watcherCb ?me1 = Some (tbl(s := Fn cb1))"
    using watch_frame(1) [OF assms(1) tbl, of u1 a1 "LenNum l1" "Fn cb1"] by simp
  have two: "watcherCb (snd (watch s u2 a2 (LenNum l2) (Fn cb2) ?me1)) = Some (tbl(s := Fn cb2))"
    using watch_frame(1) [OF assms(1) one, of u2 a2 "LenNum l2" "Fn cb2"] by simp
  show ?thesis
    using assms(1) by (simp add: onStatus_def two)
qed

theorem watch_last_writer_wins_witness:
  "3 < numStatus \<and> watcherCb ready \<noteq> None \<and>
   trace (onStatus 3 [0xAB]
      (snd (watch 3 1 0x38 (LenNum 1) (Fn 8) (snd (watch 3 1 0x5F (LenNum 1) (Fn 7) ready))))) =
   trace (snd (watch 3 1 0x38 (LenNum 1) (Fn 8) (snd (watch 3 1 0x5F (LenNum 1) (Fn 7) ready))))
     @ [WatcherCall 8 [0xAB] 3]"
  using watch_last_writer_wins [of 3 ready "[0xAB]" 1 "0x38" 1 8 1 "0x5F" 1 7]
  by (simp add: numStatus_20 ready_def issue_def)

lemma unwatch_frame:
  assumes "s < numStatus" and "watcherCb me = Some tbl"
  shows "watcherCb (snd (unwatch s me)) = Some (tbl(s := Null))"
  using assms
  by (simp add: unwatch_def Let_def andThen_cases split_beta unsubscribe_frame command_frame)

text \<open>
  C8, as stated, fails. On a connected dongle, \<^verbatim>\<open>watch(3, ...)\<close> runs to its end
  and \<^verbatim>\<open>unwatch(3)\<close> follows. When the unsubscribe of the \<^verbatim>\<open>unwatch\<close>
  completes with an error, the promise is rejected, the characteristic of slot 3 is still
  subscribed and the trace ends with the unsubscribe: no UNWATCH command is sent. When
  the device lacks the characteristic of slot 3 (a valid slot), the unsubscribe never
  settles and the trace stays empty: nothing is sent at all.
\<close>
theorem unwatch_counterexample:
  "3 < numStatus
   \<and> fst (unwatch 3 (snd (watch 3 1 0x5F (LenNum 1) (Fn 7) (ready\<lparr>peer := fourth_fails\<rparr>))))
       = Promise (Rejected (Error ''Failed to unsubscribe characteristic''))
   \<and> ''6765ed1f4de149e14771a14380c90009''
        \<in> subscribed (snd (unwatch 3 (snd (watch 3 1 0x5F (LenNum 1) (Fn 7) (ready\<lparr>peer := fourth_fails\<rparr>)))))
   \<and> trace (snd (unwatch 3 (snd (watch 3 1 0x5F (LenNum 1) (Fn 7) (ready\<lparr>peer := fourth_fails\<rparr>)))))
       = [Unsubscribe ''6765ed1f4de149e14771a14380c90009'',
          Command 254 2 [3, 1, 0x00, 0x5F, 1],
          Subscribe ''6765ed1f4de149e14771a14380c90009'',
          Unsubscribe ''6765ed1f4de149e14771a14380c90009'']
   \<and> fst (unwatch 3 (snd (watch 3 1 0x5F (LenNum 1) (Fn 7) ready_without_3))) = Promise Pending
   \<and> trace (snd (unwatch 3 (snd (watch 3 1 0x5F (LenNum 1) (Fn 7) ready_without_3)))) = []"
  by (simp add: unwatch_def watch_def numStatus_20 Let_def andThen_def unsubscribe_def command_def
        subscribe_def onComplete_def next_completion_def issue_def ready_def ready_without_3_def
        all_ok_def fourth_fails_def uuidStatus_def Buffer_from_def js_shr8_def js_and255_def
        dongle_id_def OP_WATCH_def)

text \<open>
  C8, amended. For every valid slot \<open>s\<close> of a dongle whose callback table exists:
  after \<^verbatim>\<open>watch(s, ...)\<close> has run to its end, \<^verbatim>\<open>unwatch(s)\<close> leaves
  \<^verbatim>\<open>watcherCb[s]\<close> at \<^verbatim>\<open>null\<close>, whatever the outside world answers. When the
  characteristic \<open>c\<close> of the slot was found and the unsubscribe of the
  \<^verbatim>\<open>unwatch\<close> completes without error, \<open>c\<close> is not subscribed afterwards, and the
  \<^verbatim>\<open>unwatch\<close> adds to the trace the unsubscribe and one UNWATCH command to the dongle
  whose payload is the byte \<open>s\<close>.
\<close>
theorem watch_then_unwatch:
  assumes "s < numStatus" and "watcherCb me = Some tbl"
  shows "slot_callback (snd (unwatch s (snd (watch s uid a len cb me)))) s = Null
       \<and> (\<forall>c r. statusChar me s = Some c
                \<and> next_completion (snd (watch s uid a len cb me)) = Callback None r
            \<longrightarrow> c \<notin> subscribed (snd (unwatch s (snd (watch s uid a len cb me))))
                \<and> trace (snd (unwatch s (snd (watch s uid a len cb me)))) =
                    trace (snd (watch s uid a len cb me))
                      @ [Unsubscribe c, Command dongle_id OP_UNWATCH [word_of_nat s]])"
proof (intro conjI allI impI)
  let ?me1 = "snd (watch s uid a len cb me)"
  obtain tbl1 where t1: "watcherCb ?me1 = Some tbl1"
    using watch_frame(1) [OF assms(1,2)] by blast
  show "slot_callback (snd (unwatch s ?me1)) s = Null"
    by (simp add: slot_callback_def unwatch_frame [OF assms(1) t1])
  fix c r
  assume h: "statusChar me s = Some c \<and> next_completion ?me1 = Callback None r"
  have c1: "statusChar ?me1 s = Some c"
    using watch_frame(2) [OF assms(1,2)] h by simp
  let ?m = "?me1\<lparr>watcherCb := Some (tbl1(s := Null))\<rparr>"
  have nc: "next_completion ?m = Callback None r"
    using h by (simp add: next_completion_def)
  have u: "unsubscribe (Some c) ?m =
             (Resolved, issue (Unsubscribe c) (?m\<lparr>subscribed := subscribed ?m - {c}\<rparr>))"
    by (rule unsubscribe_ok [OF nc])
  have uw: "unwatch s ?me1 =
          (Promise (fst (command dongle_id OP_UNWATCH [word_of_nat s]
                      (issue (Unsubscribe c) (?m\<lparr>subscribed := subscribed ?m - {c}\<rparr>)))),
           snd (command dongle_id OP_UNWATCH [word_of_nat s]
                      (issue (Unsubscribe c) (?m\<lparr>subscribed := subscribed ?m - {c}\<rparr>))))"
    using assms(1) c1 u
    by (simp add: unwatch_def t1 Let_def andThen_def split_beta Buffer_from_def)
  show "c \<notin> subscribed (snd (unwatch s ?me1))"
    unfolding uw by (simp add: command_frame issue_def)
  show "trace (snd (unwatch s ?me1)) =
          trace ?me1 @ [Unsubscribe c, Command dongle_id OP_UNWATCH [word_of_nat s]]"
    unfolding uw by (simp add: command_frame issue_def)
qed

theorem watch_then_unwatch_witness:
  "3 < numStatus
   \<and> slot_callback (snd (unwatch 3 (snd (watch 3 1 0x5F (LenNum 1) (Fn 7) ready)))) 3 = Null
   \<and> ''6765ed1f4de149e14771a14380c90009''
        \<notin> subscribed (snd (unwatch 3 (snd (watch 3 1 0x5F (LenNum 1) (Fn 7) ready))))
   \<and> trace (snd (unwatch 3 (snd (watch 3 1 0x5F (LenNum 1) (Fn 7) ready)))) =
       [Unsubscribe ''6765ed1f4de149e14771a14380c90009'',
        Command 254 2 [3, 1, 0x00, 0x5F, 1],
        Subscribe ''6765ed1f4de149e14771a14380c90009'',
        Unsubscribe ''6765ed1f4de149e14771a14380c90009'',
        Command 254 3 [3]]"
proof -
  have h1: "3 < numStatus"
    by (simp add: numStatus_20)
  have h3: "statusChar ready 3 = Some ''6765ed1f4de149e14771a14380c90009''"
    by (simp add: ready_def numStatus_20 uuidStatus_def)
  have t: "trace (snd (watch 3 1 0x5F (LenNum 1) (Fn 7) ready)) =
             [Unsubscribe ''6765ed1f4de149e14771a14380c90009'',
              Command 254 2 [3, 1, 0x00, 0x5F, 1],
              Subscribe ''6765ed1f4de149e14771a14380c90009'']"
    by (simp add: watch_def numStatus_20 Let_def andThen_def unsubscribe_def command_def
          subscribe_def onComplete_def next_completion_def issue_def ready_def all_ok_def
          uuidStatus_def Buffer_from_def js_shr8_def js_and255_def dongle_id_def OP_WATCH_def)
  have h4: "next_completion (snd (watch 3 1 0x5F (LenNum 1) (Fn 7) ready)) =
              Callback None (Some (Response 0 (Some [0])))"
    using t watch_frame(3) [OF h1 ready_fields(1), of 1 "0x5F" "LenNum 1" "Fn 7"]
    by (simp add: next_completion_def ready_fields all_ok_def)
  note th = watch_then_unwatch [OF h1 ready_fields(1), of 1 "0x5F" "LenNum 1" "Fn 7"]
  from th have first: "slot_callback (snd (unwatch 3 (snd (watch 3 1 0x5F (LenNum 1) (Fn 7) ready)))) 3 = Null"
    by (rule conjunct1)
  from th h3 h4 have rest:
    "''6765ed1f4de149e14771a14380c90009''
        \<notin> subscribed (snd (unwatch 3 (snd (watch 3 1 0x5F (LenNum 1) (Fn 7) ready))))
     \<and> trace (snd (unwatch 3 (snd (watch 3 1 0x5F (LenNum 1) (Fn 7) ready)))) =
         trace (snd (watch 3 1 0x5F (LenNum 1) (Fn 7) ready))
           @ [Unsubscribe ''6765ed1f4de149e14771a14380c90009'',
              Command dongle_id OP_UNWATCH [word_of_nat 3]]"
    by blast
  show ?thesis
    using h1 first rest t by (simp add: dongle_id_def OP_UNWATCH_def)
qed

text \<open>
  C10. On a dongle whose slot 0 has the characteristic \<open>c\<close>, with the unsubscribe,
  the WATCH command (answered with status 0) and the subscribe all completing without
  error: \<^verbatim>\<open>watch(0, 1, 0x005F, 1, cb)\<close> resolves, adds to the trace the unsubscribe,
  exactly one WATCH command to the dongle with the payload \<open>[0, 1, 0x00, 0x5F, 1]\<close> and
  the subscribe, leaves \<open>c\<close> subscribed, and a notification on slot 0 afterwards
  calls \<open>cb\<close> once, with the payload.
\<close>
theorem watch_scenario:
  assumes "watcherCb me = Some tbl" and "statusChar me 0 = Some c"
    and "peer me (length (trace me)) = Callback None r1"
    and "peer me (length (trace me) + 1) = Callback None (Some (Response 0 (Some (0 # vs))))"
    and "peer me (length (trace me) + 2) = Callback None r3"
  shows "fst (watch 0 1 0x5F (LenNum 1) (Fn cb) me) = Promise Resolved
       \<and> trace (snd (watch 0 1 0x5F (LenNum 1) (Fn cb) me)) =
           trace me @ [Unsubscribe c, Command dongle_id OP_WATCH [0, 1, 0x00, 0x5F, 1], Subscribe c]
       \<and> c \<in> subscribed (snd (watch 0 1 0x5F (LenNum 1) (Fn cb) me))
       \<and> onStatus 0 payload (snd (watch 0 1 0x5F (LenNum 1) (Fn cb) me)) =
           issue (WatcherCall cb payload 0) (snd (watch 0 1 0x5F (LenNum 1) (Fn cb) me))"
proof -
  have p: "Buffer_from [0, 1, js_shr8 95, js_and255 95, 1] = [0, 1, 0x00, 0x5F, 1]"
    by (simp add: Buffer_from_def js_shr8_def js_and255_def)
  show ?thesis
    using assms
    by (simp add: watch_def numStatus_20 Let_def p andThen_def unsubscribe_def command_def
          subscribe_def onComplete_def next_completion_def issue_def onStatus_def)
qed

theorem watch_scenario_witness:
  "fst (watch 0 1 0x5F (LenNum 1) (Fn 7) ready) = Promise Resolved
     \<and> trace (snd (watch 0 1 0x5F (LenNum 1) (Fn 7) ready)) =
         [Unsubscribe ''6765ed1f4de149e14771a14380c90006'',
          Command 254 2 [0, 1, 0x00, 0x5F, 1],
          Subscribe ''6765ed1f4de149e14771a14380c90006'']
     \<and> trace (onStatus 0 [0xAB] (snd (watch 0 1 0x5F (LenNum 1) (Fn 7) ready))) =
         [Unsubscribe ''6765ed1f4de149e14771a14380c90006'',
          Command 254 2 [0, 1, 0x00, 0x5F, 1],
          Subscribe ''6765ed1f4de149e14771a14380c90006'',
          WatcherCall 7 [0xAB] 0]"
  using watch_scenario [of ready "\<lambda>i. if i < numStatus then Null else Undefined"
      "''6765ed1f4de149e14771a14380c90006''" "Some (Response 0 (Some [0]))" "[]"
      "Some (Response 0 (Some [0]))" 7 "[0xAB]"]
  by (simp add: ready_def all_ok_def numStatus_20 uuidStatus_def issue_def dongle_id_def OP_WATCH_def)

section \<open>The superwatch slot\<close>

text \<open>
  C3. The slot \<^verbatim>\<open>superwatch\<close> claims is \<^verbatim>\<open>SLOT_SUPERWATCH = 0x10\<close>, which is
  below \<open>numStatus = 20\<close>: it is the ordinary slot 16. On a connected dongle,
  \<^verbatim>\<open>watch(16, 1, 0x5F, 1, f7)\<close> installs \<open>f7\<close> at slot 16, a following
  \<^verbatim>\<open>superwatch(1, [0x2E], f9)\<close> replaces it by \<open>f9\<close>, and a notification on the
  ordinary slot 16 then calls \<open>f9\<close>, the superwatch callback.
\<close>
theorem superwatch_collides:
  "SLOT_SUPERWATCH < numStatus
   \<and> slot_callback (snd (watch 16 1 0x5F (LenNum 1) (Fn 7) ready)) 16 = Fn 7
   \<and> slot_callback
        (snd (superwatch 1 [0x2E] (Fn 9) (snd (watch 16 1 0x5F (LenNum 1) (Fn 7) ready)))) 16 = Fn 9
   \<and> onStatus 16 [0xAB]
        (snd (superwatch 1 [0x2E] (Fn 9) (snd (watch 16 1 0x5F (LenNum 1) (Fn 7) ready)))) =
       issue (WatcherCall 9 [0xAB] 16)
         (snd (superwatch 1 [0x2E] (Fn 9) (snd (watch 16 1 0x5F (LenNum 1) (Fn 7) ready))))"
proof -
  have n: "(16::nat) < numStatus" by (simp add: numStatus_20)
  let ?me1 = "snd (watch 16 1 0x5F (LenNum 1) (Fn 7) ready)"
  have w1: "watcherCb ?me1 = Some ((\<lambda>i. if i < numStatus then Null else Undefined)(16 := Fn 7))"
    using watch_frame(1) [OF n ready_fields(1), of 1 "0x5F" "LenNum 1" "Fn 7"] by simp
  have w2: "watcherCb (snd (superwatch 1 [0x2E] (Fn 9) ?me1)) =
              Some ((\<lambda>i. if i < numStatus then Null else Undefined)(16 := Fn 9))"
    using superwatch_frame [OF w1, of 1 "[0x2E]" "Fn 9"] by (simp add: SLOT_SUPERWATCH_def)
  show ?thesis
    using w1 w2 by (simp add: slot_callback_def onStatus_def SLOT_SUPERWATCH_def numStatus_20)
qed

lemma payload_length:
  "length (concat (map (\<lambda>address. [js_shr8 address, js_and255 address]) addresses)) =
     2 * length addresses"
  by (induction addresses) simp_all

text \<open>
  C2, as stated, fails. With 26 addresses (one more than the maximum of 25 the
  specification names) on a connected dongle, \<^verbatim>\<open>superwatch\<close> resolves and the trace
  holds the unsubscribe, a SUPERWATCH command carrying all 26 addresses, and the subscribe.
\<close>
theorem superwatch_counterexample:
  "length (replicate 26 (0x002E::nat)) = 26
   \<and> fst (superwatch 1 (replicate 26 0x002E) (Fn 9) ready) = Promise Resolved
   \<and> trace (snd (superwatch 1 (replicate 26 0x002E) (Fn 9) ready)) =
       [Unsubscribe uuidSuperwatch,
        Command 254 5 ([0x10, 1] @ concat (replicate 26 [0x00, 0x2E])),
        Subscribe uuidSuperwatch]"
  by (simp add: superwatch_def Let_def andThen_def unsubscribe_def command_def subscribe_def
        next_completion_def issue_def ready_def all_ok_def dongle_id_def OP_SUPERWATCH_def
        SLOT_SUPERWATCH_def Buffer_from_def js_shr8_def js_and255_def map_concat)

text \<open>
  C2, amended. \<^verbatim>\<open>superwatch\<close> makes no check of the length of the address list.
  For a list of any length, on a dongle with a callback table and a superwatch
  characteristic \<open>c\<close> whose unsubscribe completes without error, it adds to the trace
  the unsubscribe, one SUPERWATCH command to the dongle whose payload is the slot byte
  0x10, the unit and the high and low byte of every address (2 + 2n bytes for n
  addresses), and the subscribe; what the caller gets is what it gets for the empty list.
\<close>
theorem superwatch_any_length:
  assumes "watcherCb me = Some tbl" and "superwatchChar me = Some c"
    and "next_completion me = Callback None r"
  shows "trace (snd (superwatch uid addresses cb me)) =
           trace me @
             [Unsubscribe c,
              Command dongle_id OP_SUPERWATCH
                (Buffer_from ([int SLOT_SUPERWATCH, int uid]
                   @ concat (map (\<lambda>address. [js_shr8 address, js_and255 address]) addresses))),
              Subscribe c]
       \<and> length (Buffer_from ([int SLOT_SUPERWATCH, int uid]
                   @ concat (map (\<lambda>address. [js_shr8 address, js_and255 address]) addresses)))
           = 2 + 2 * length addresses
       \<and> fst (superwatch uid addresses cb me) = fst (superwatch uid [] cb me)"
proof -
  let ?m0 = "me\<lparr>watcherCb := Some (tbl(SLOT_SUPERWATCH := cb))\<rparr>"
  have u: "unsubscribe (Some c) ?m0 =
             (Resolved, issue (Unsubscribe c) (?m0\<lparr>subscribed := subscribed ?m0 - {c}\<rparr>))"
    using assms(3) by (intro unsubscribe_ok [of _ r]) (simp add: next_completion_def)
  have len: "length (Buffer_from ([int SLOT_SUPERWATCH, int uid]
                   @ concat (map (\<lambda>address. [js_shr8 address, js_and255 address]) addresses)))
           = 2 + 2 * length addresses"
    by (simp add: Buffer_from_def payload_length)
  have tr: "trace (snd (superwatch uid addresses cb me)) =
           trace me @
             [Unsubscribe c,
              Command dongle_id OP_SUPERWATCH
                (Buffer_from ([int SLOT_SUPERWATCH, int uid]
                   @ concat (map (\<lambda>address. [js_shr8 address, js_and255 address]) addresses))),
              Subscribe c]"
    using assms(1,2) u
    by (simp add: superwatch_def Let_def andThen_def split_beta command_frame subscribe_trace
          issue_def)
  have out: "fst (superwatch uid xs cb me) =
               Promise (case peer me (length (trace me) + 2) of
                          NoCallback \<Rightarrow> Pending
                        | Callback (Some err) r \<Rightarrow>
                            Rejected (Error ''Failed to subscribe to characteristic'')
                        | Callback None r \<Rightarrow> Resolved)" for xs
    using assms(1,2) u
    by (simp add: superwatch_def Let_def andThen_def split_beta subscribe_outcome command_frame
          next_completion_def issue_def)
  show ?thesis
    using tr len by (simp add: out)
qed

theorem superwatch_any_length_witness:
  "fst (superwatch 1 [0x002E, 0x0064, 0x0038] (Fn 9) ready) = fst (superwatch 1 [] (Fn 9) ready)
   \<and> trace (snd (superwatch 1 [0x002E, 0x0064, 0x0038] (Fn 9) ready)) =
       [Unsubscribe uuidSuperwatch,
        Command 254 5 [0x10, 1, 0x00, 0x2E, 0x00, 0x64, 0x00, 0x38],
        Subscribe uuidSuperwatch]"
proof -
  have h3: "next_completion ready = Callback None (Some (Response 0 (Some [0])))"
    by (simp add: ready_def next_completion_def all_ok_def)
  show ?thesis
    using superwatch_any_length [OF ready_fields(1) ready_fields(2) h3,
        of 1 "[0x002E, 0x0064, 0x0038]" "Fn 9"]
    by (simp add: ready_fields dongle_id_def OP_SUPERWATCH_def SLOT_SUPERWATCH_def Buffer_from_def
          js_shr8_def js_and255_def)
qed

section \<open>Chunked writes\<close>

lemma chunk_count_step:
  "index < n \<Longrightarrow> (n - index + 19) div 20 = Suc ((n - (index + 20) + 19) div (20::nat))"
proof (cases "index + 20 \<le> n")
  case True
  then have "n - index + 19 = (n - (index + 20) + 19) + 1 * 20" by simp
  then show ?thesis by (simp only: div_mult_self3)
next
  case False
  assume "index < n"
  with False have "n - index + 19 < 40" "20 \<le> n - index + 19" "n - (index + 20) = 0"
    by simp_all
  then show ?thesis by simp
qed

lemma chunk_count_covers: "n \<le> 20 * ((n + 19) div (20::nat))"
proof -
  have "n + 19 = 20 * ((n + 19) div 20) + (n + 19) mod 20" by simp
  moreover have "(n + 19) mod 20 < 20" by simp
  ultimately show ?thesis by linarith
qed

lemma chunk_count_tight: "k < (n + 19) div (20::nat) \<Longrightarrow> 20 * k < n"
proof -
  assume "k < (n + 19) div 20"
  then have "Suc k \<le> (n + 19) div 20" by simp
  then have "20 * Suc k \<le> 20 * ((n + 19) div 20)" by (rule mult_le_mono2)
  also have "\<dots> \<le> n + 19" by simp
  finally show ?thesis by simp
qed

text \<open>
  The loop on a connected dongle with a transmit characteristic: from \<open>index\<close> on it
  issues one write per slice of 20 bytes and collects one promise per write.
\<close>
lemma write_loop_result:
  assumes "txCharacteristic me = Some c" and "isConnected me"
  shows "write_loop data index writes me =
           (writes @ map (\<lambda>k. write_callback (peer me (length (trace me) + k)))
                       [0..<(length data - index + 19) div 20],
            me\<lparr>trace := trace me @ map (\<lambda>k. Write c (take 20 (drop (index + 20 * k) data)))
                                     [0..<(length data - index + 19) div 20]\<rparr>)"
  using assms
proof (induction data index writes me rule: write_loop.induct)
  case (1 data index writes me)
  show ?case
  proof (cases "index < length data")
    case False
    then show ?thesis
      by (simp add: write_loop.simps [of data index])
  next
    case True
    let ?chunk = "take 20 (drop index data)"
    let ?me1 = "issue (Write c ?chunk) me"
    have wc: "writeCharacteristic (txCharacteristic me) ?chunk me =
                (write_callback (peer me (length (trace me))), ?me1)"
      using "1.prems" by (simp add: writeCharacteristic_def next_completion_def)
    have tx1: "txCharacteristic ?me1 = Some c" and con1: "isConnected ?me1"
      using "1.prems" by (simp_all add: issue_def isConnected_def)
    note ih = "1.IH" [OF True refl wc [symmetric] refl tx1 con1]
    have unfold: "write_loop data index writes me =
                    write_loop data (index + 20)
                      (writes @ [write_callback (peer me (length (trace me)))]) ?me1"
      using True by (subst write_loop.simps) (simp add: wc)
    show ?thesis
      unfolding unfold ih chunk_count_step [OF True]
      by (simp add: issue_def map_upt_Suc add.assoc del: upt_Suc)
  qed
qed

lemma chunks_concat:
  "concat (map (\<lambda>k. take 20 (drop (20 * k) data)) [0..<n]) = take (20 * n) data"
proof (induction n)
  case 0
  show ?case by simp
next
  case (Suc n)
  have "take (20 * Suc n) data = take (20 * n) data @ take 20 (drop (20 * n) data)"
    by (simp add: take_add [symmetric] add.commute)
  with Suc show ?case by simp
qed

text \<open>
  C5, as stated, fails in its last part. With an outside world that never completes a
  write, \<^verbatim>\<open>write\<close> of a 45-byte buffer has returned \<^verbatim>\<open>undefined\<close> to its caller
  while the three promises of its chunk writes are all unsettled.
\<close>
theorem write_returns_early_counterexample:
  "fst (dongle_write (replicate 45 0x55) (ready\<lparr>peer := never\<rparr>)) = Returned Undefined
   \<and> write_promises (replicate 45 0x55) (ready\<lparr>peer := never\<rparr>) = [Pending, Pending, Pending]"
proof -
  have h1: "txCharacteristic (ready\<lparr>peer := never\<rparr>) = Some uuidTx"
    by (simp add: ready_def)
  have h2: "isConnected (ready\<lparr>peer := never\<rparr>)"
    by (simp add: ready_def isConnected_def)
  show ?thesis
    by (simp add: dongle_write_def write_promises_def h1 write_loop_result [OF h1 h2] upt_3
          never_def write_callback_def split_beta)
qed

text \<open>
  C5, amended. On a connected dongle with a transmit characteristic \<open>c\<close>, for every
  buffer, \<^verbatim>\<open>write\<close> issues \<open>ceil(len / 20)\<close> writes to \<open>c\<close>, in order, the
  \<open>k\<close>-th carrying the bytes from \<open>20 k\<close> up to \<open>20 k + 20\<close>: the chunks put
  together are the buffer, every chunk but the last has 20 bytes, and every chunk has from
  1 to 20. It then returns \<^verbatim>\<open>undefined\<close>, without waiting for the writes to
  complete.
\<close>
theorem write_chunks:
  assumes "txCharacteristic me = Some c" and "isConnected me"
  shows "trace (snd (dongle_write data me)) =
           trace me @ map (\<lambda>k. Write c (take 20 (drop (20 * k) data))) [0..<(length data + 19) div 20]
       \<and> concat (map (\<lambda>k. take 20 (drop (20 * k) data)) [0..<(length data + 19) div 20]) = data
       \<and> (\<forall>k. Suc k < (length data + 19) div 20 \<longrightarrow> length (take 20 (drop (20 * k) data)) = 20)
       \<and> (\<forall>k. k < (length data + 19) div 20 \<longrightarrow>
             0 < length (take 20 (drop (20 * k) data)) \<and> length (take 20 (drop (20 * k) data)) \<le> 20)
       \<and> fst (dongle_write data me) = Returned Undefined"
proof (intro conjI allI impI)
  show "trace (snd (dongle_write data me)) =
          trace me @ map (\<lambda>k. Write c (take 20 (drop (20 * k) data))) [0..<(length data + 19) div 20]"
    using assms by (simp add: dongle_write_def write_loop_result [OF assms])
  show "concat (map (\<lambda>k. take 20 (drop (20 * k) data)) [0..<(length data + 19) div 20]) = data"
    using chunk_count_covers [of "length data"] by (simp add: chunks_concat)
  show "fst (dongle_write data me) = Returned Undefined"
    by (simp add: dongle_write_def split_beta split: option.split)
next
  fix k assume "Suc k < (length data + 19) div 20"
  from chunk_count_tight [OF this] show "length (take 20 (drop (20 * k) data)) = 20"
    by simp
next
  fix k assume "k < (length data + 19) div 20"
  from chunk_count_tight [OF this]
  show "0 < length (take 20 (drop (20 * k) data))" by simp
  show "length (take 20 (drop (20 * k) data)) \<le> 20" by simp
qed

theorem write_chunks_witness:
  "txCharacteristic ready = Some uuidTx \<and> isConnected ready
   \<and> trace (snd (dongle_write (replicate 45 0x55) ready)) =
       [Write uuidTx (replicate 20 0x55), Write uuidTx (replicate 20 0x55),
        Write uuidTx (replicate 5 0x55)]
   \<and> concat [replicate 20 0x55, replicate 20 0x55, replicate 5 (0x55::byte)] = replicate 45 0x55"
  using write_chunks [OF ready_fields(3) ready_fields(4), of "replicate 45 0x55"]
  by (simp add: ready_fields upt_3 replicate_add [symmetric])

lemma first_rejected_member:
  "Rejected e \<in> set ps \<Longrightarrow> \<exists>e'. first_rejected ps = Some e' \<and> Rejected e' \<in> set ps"
  by (induction ps rule: first_rejected.induct) auto

lemma write_promises_length:
  assumes "txCharacteristic me = Some c" and "isConnected me"
  shows "length (write_promises data me) = (length data + 19) div 20"
  using assms by (simp add: write_promises_def write_loop_result [OF assms])

text \<open>
  C6, as stated, fails. With an outside world that fails the second write with a transport
  error, the promise of the second chunk is rejected with that error and so is
  \<^verbatim>\<open>Promise.all(writes)\<close>; the chain \<^verbatim>\<open>write\<close> builds on it ends resolved, and
  \<^verbatim>\<open>write\<close> gives its caller \<^verbatim>\<open>undefined\<close>: no failure reaches the caller.
\<close>
theorem write_error_counterexample:
  "write_promises (replicate 45 0x55) (ready\<lparr>peer := second_fails\<rparr>)
     = [Resolved, Rejected (Transport 7), Resolved]
   \<and> Promise_all (write_promises (replicate 45 0x55) (ready\<lparr>peer := second_fails\<rparr>))
     = Rejected (Transport 7)
   \<and> write_chain (replicate 45 0x55) (ready\<lparr>peer := second_fails\<rparr>) = Some Resolved
   \<and> fst (dongle_write (replicate 45 0x55) (ready\<lparr>peer := second_fails\<rparr>)) = Returned Undefined"
proof -
  have h1: "txCharacteristic (ready\<lparr>peer := second_fails\<rparr>) = Some uuidTx"
    by (simp add: ready_def)
  have h2: "isConnected (ready\<lparr>peer := second_fails\<rparr>)"
    by (simp add: ready_def isConnected_def)
  show ?thesis
    by (simp add: dongle_write_def write_promises_def write_chain_def then_catch_empty_def h1
          write_loop_result [OF h1 h2] upt_3 ready_fields second_fails_def write_callback_def
          split_beta Promise_all_def)
qed

text \<open>
  C6, amended. On a connected dongle with a transmit characteristic, when the underlying
  write of chunk \<open>k\<close> completes with the error \<open>e\<close>: the promise
  \<^verbatim>\<open>writeCharacteristic\<close> returned for that chunk is rejected with \<open>e\<close>;
  \<^verbatim>\<open>Promise.all(writes)\<close> is rejected with the error of a failed chunk; the chain
  \<^verbatim>\<open>Promise.all(writes).then(...).catch(...)\<close> ends resolved, its empty second handler
  having taken the rejection; and \<^verbatim>\<open>write\<close> returns \<^verbatim>\<open>undefined\<close> to its
  caller: the error is not passed on.
\<close>
theorem write_error_swallowed:
  assumes "txCharacteristic me = Some c" and "isConnected me"
    and "k < (length data + 19) div 20"
    and "peer me (length (trace me) + k) = Callback (Some e) r"
  shows "write_promises data me ! k = Rejected e
       \<and> (\<exists>e'. Promise_all (write_promises data me) = Rejected e'
                \<and> Rejected e' \<in> set (write_promises data me))
       \<and> write_chain data me = Some Resolved
       \<and> fst (dongle_write data me) = Returned Undefined"
proof -
  have k: "write_promises data me ! k = Rejected e"
    using assms
    by (simp add: write_promises_def write_loop_result [OF assms(1,2)] write_callback_def)
  have "k < length (write_promises data me)"
    using assms(3) by (simp add: write_promises_length [OF assms(1,2)])
  then have "Rejected e \<in> set (write_promises data me)"
    using k nth_mem by fastforce
  from first_rejected_member [OF this]
  obtain e' where e': "first_rejected (write_promises data me) = Some e'"
    and mem: "Rejected e' \<in> set (write_promises data me)"
    by blast
  have pa: "Promise_all (write_promises data me) = Rejected e'"
    by (simp add: Promise_all_def e')
  have ch: "write_chain data me = Some Resolved"
    using pa assms(1) by (simp add: write_chain_def write_promises_def then_catch_empty_def)
  have ret: "fst (dongle_write data me) = Returned Undefined"
    by (simp add: dongle_write_def split_beta split: option.split)
  show ?thesis
    using k pa mem ch ret by blast
qed

theorem write_error_swallowed_witness:
  "write_promises (replicate 45 0x55) (ready\<lparr>peer := second_fails\<rparr>) ! 1 = Rejected (Transport 7)
   \<and> write_chain (replicate 45 0x55) (ready\<lparr>peer := second_fails\<rparr>) = Some Resolved
   \<and> fst (dongle_write (replicate 45 0x55) (ready\<lparr>peer := second_fails\<rparr>)) = Returned Undefined"
proof -
  have h1: "txCharacteristic (ready\<lparr>peer := second_fails\<rparr>) = Some uuidTx"
    by (simp add: ready_def)
  have h2: "isConnected (ready\<lparr>peer := second_fails\<rparr>)"
    by (simp add: ready_def isConnected_def)
  have h3: "1 < (length (replicate 45 (0x55::byte)) + 19) div 20"
    by simp
  have h4: "peer (ready\<lparr>peer := second_fails\<rparr>) (length (trace (ready\<lparr>peer := second_fails\<rparr>)) + 1)
              = Callback (Some (Transport 7)) None"
    by (simp add: ready_def second_fails_def)
  show ?thesis
    using write_error_swallowed [OF h1 h2 h3 h4] by simp
qed

section \<open>The command queue\<close>

lemma request_callbacks_append:
  "request_callbacks (xs @ ys) = request_callbacks xs @ request_callbacks ys"
  by (induction xs rule: request_callbacks.induct) simp_all

text \<open>
  C4, as stated, fails. On a connected dongle with two requests queued,
  \<^verbatim>\<open>disconnect\<close> resolves, both requests are still in the queue, and the trace after
  it holds the disconnect and the \<^verbatim>\<open>disconnected\<close> event but no call of a request
  callback.
\<close>
theorem disconnect_counterexample:
  "fst (disconnect (dunder_command [2] 2 (Some 500) (dunder_command [1] 1 (Some 500) ready)))
     = Resolved
   \<and> map rq_callback
        (commandQueue
           (snd (disconnect (dunder_command [2] 2 (Some 500) (dunder_command [1] 1 (Some 500) ready)))))
     = [1, 2]
   \<and> trace (snd (disconnect (dunder_command [2] 2 (Some 500) (dunder_command [1] 1 (Some 500) ready))))
     = [Emit ''sendCommand'' (Some [1]), PeripheralDisconnect, Emit ''disconnected'' None]"
  by (simp add: disconnect_def dunder_command_def sendNextCommand_def writeCharacteristic_def
        isConnected_def issue_def next_completion_def ready_def all_ok_def Let_def)

text \<open>
  C4, amended. For every number of queued requests, \<^verbatim>\<open>disconnect\<close> leaves the
  command queue as it was, all requests in their order, and calls no request callback.
\<close>
theorem disconnect_keeps_queue:
  "commandQueue (snd (disconnect me)) = commandQueue me
   \<and> request_callbacks (trace (snd (disconnect me))) = request_callbacks (trace me)"
  by (simp add: disconnect_def issue_def Let_def request_callbacks_append
        split: option.split completion.split)

text \<open>
  C1. On a connected dongle, two requests are queued with \<^verbatim>\<open>__command\<close>, each with a
  timeout of 500. Afterwards no request has a timer (both \<^verbatim>\<open>responseTimer\<close> fields
  are still \<^verbatim>\<open>null\<close>), the trace holds the \<^verbatim>\<open>sendCommand\<close> event of the first
  request and nothing else (no callback was called, the second request was not sent), and
  a timer firing changes nothing.
\<close>
theorem timeout_never_delivered:
  "map rq_responseTimer
      (commandQueue (dunder_command [2] 2 (Some 500) (dunder_command [1] 1 (Some 500) ready)))
     = [Null, Null]
   \<and> trace (dunder_command [2] 2 (Some 500) (dunder_command [1] 1 (Some 500) ready))
     = [Emit ''sendCommand'' (Some [1])]
   \<and> timer_fires (dunder_command [2] 2 (Some 500) (dunder_command [1] 1 (Some 500) ready))
     = dunder_command [2] 2 (Some 500) (dunder_command [1] 1 (Some 500) ready)"
  by (simp add: timer_fires_def handleResponseTimeout_def dunder_command_def sendNextCommand_def
        writeCharacteristic_def isConnected_def issue_def next_completion_def ready_def Let_def)

end
